theory Spec2Isabelle
  imports Complex_Main "HOL-Library.Sublist" "HOL-Library.Multiset" "HOL-Library.Option_ord"
begin

section \<open>Strings and the prompt format\<close>

text \<open>
  Python strings are modelled as \<open>string\<close> (lists of characters). The newline the source
  writes as \<open>\n\<close> is the character \<open>CHR 0x0A\<close>.
\<close>

abbreviation NL :: char where
  "NL \<equiv> CHR 0x0A"

text \<open>Line 119 of \<open>medical_chatbot.py\<close>: the fixed local \<open>prompt\<close> of
  \<open>generate_prompt_with_history\<close>.\<close>

definition prompt_preamble :: string where
  "prompt_preamble =
     ''The following is a conversation between a human and an AI assistant named Baize (named after a mythical creature in Chinese folklore). Baize is an open-source AI assistant developed by UCSD and Sun Yat-Sen University. The human and the AI assistant take turns chatting. Human statements start with [|Human|] and AI assistant statements start with [|AI|]. The AI assistant always provides responses in as much detail as possible, and in Markdown format. The AI assistant always declines to engage with topics, questions and instructions related to unethical, controversial, or sensitive issues. Complete the transcript in exactly that format.''
     @ [NL] @ ''[|Human|]Hello!'' @ [NL] @ ''[|AI|]Hi!''"

text \<open>Line 120: \<open>"\n[|Human|]{}\n[|AI|]{}".format(x[0], x[1])\<close> for a history turn \<open>x\<close>.\<close>

definition format_turn :: "string \<times> string \<Rightarrow> string" where
  "format_turn x = [NL] @ ''[|Human|]'' @ fst x @ [NL] @ ''[|AI|]'' @ snd x"

text \<open>Line 121: \<open>"\n[|Human|]{}\n[|AI|]".format(text)\<close> for the new utterance.\<close>

definition format_text :: "string \<Rightarrow> string" where
  "format_text text = [NL] @ ''[|Human|]'' @ text @ [NL] @ ''[|AI|]''"

section \<open>The context assembler: \<open>generate_prompt_with_history\<close> (lines 118-140)\<close>

text \<open>
  The tokenizer is a collaborator of the source: \<open>tokenizer(s, return_tensors="pt")["input_ids"]\<close>
  is a tensor of shape \<open>[1, n]\<close>; the embedding keeps its single row, a list of token ids, and
  \<open>.size(-1)\<close> is the length of that list. Nothing is assumed about the function.
\<close>

type_synonym tokenizer = "string \<Rightarrow> nat list"

text \<open>
  The loop of lines 124-134 over \<open>history[::-1]\<close>. The state is \<open>(history_text, flag)\<close>.
  The test tokenizes \<open>prompt + history_text + x\<close> (the piece \<open>x\<close> after the accumulator);
  the commit is \<open>history_text = x + history_text\<close> (the piece before it). \<open>break\<close> ends the
  walk with the state as it is.
\<close>

fun history_walk :: "tokenizer \<Rightarrow> int \<Rightarrow> string list \<Rightarrow> string \<times> bool \<Rightarrow> string \<times> bool" where
  "history_walk tokenizer max_length [] st = st"
| "history_walk tokenizer max_length (x # xs) (history_text, flag) =
     (if int (length (tokenizer (prompt_preamble @ history_text @ x))) \<le> max_length
      then history_walk tokenizer max_length xs (x @ history_text, True)
      else (history_text, flag))"

definition generate_prompt_with_history ::
  "string \<Rightarrow> (string \<times> string) list \<Rightarrow> tokenizer \<Rightarrow> int \<Rightarrow> (string \<times> nat list) option" where
  "generate_prompt_with_history text history tokenizer max_length =
     (let history' = map format_turn history @ [format_text text];
          (history_text, flag) = history_walk tokenizer max_length (rev history') ([], False)
      in if flag
         then Some (prompt_preamble @ history_text, tokenizer (prompt_preamble @ history_text))
         else None)"

text \<open>
  How many pieces of the reversed list the walk commits, from accumulator \<open>acc\<close>: the same
  recursion as \<open>history_walk\<close>, counting the commits. The first piece is the new utterance,
  so the number of history turns in the prompt is this count minus one.
\<close>

fun commits :: "tokenizer \<Rightarrow> int \<Rightarrow> string list \<Rightarrow> string \<Rightarrow> nat" where
  "commits tokenizer max_length [] acc = 0"
| "commits tokenizer max_length (x # xs) acc =
     (if int (length (tokenizer (prompt_preamble @ acc @ x))) \<le> max_length
      then Suc (commits tokenizer max_length xs (x @ acc))
      else 0)"

definition included_turns :: "string \<Rightarrow> (string \<times> string) list \<Rightarrow> tokenizer \<Rightarrow> int \<Rightarrow> nat" where
  "included_turns text history tokenizer max_length =
     commits tokenizer max_length (rev (map format_turn history @ [format_text text])) [] - 1"

text \<open>
  A tokenizer for concrete runs: one token per character, except that the two characters
  \<open>]\<close> and newline, in this order, form a single token (greedy longest match over a
  vocabulary of the 256 characters and that one pair).
\<close>

fun pair_tokenizer :: tokenizer where
  "pair_tokenizer [] = []"
| "pair_tokenizer [c] = [of_char c]"
| "pair_tokenizer (c # d # cs) =
     (if c = CHR '']'' \<and> d = NL then 256 # pair_tokenizer cs
      else of_char c # pair_tokenizer (d # cs))"

text \<open>The plainest tokenizer for concrete runs: one token per character.\<close>

definition char_tokenizer :: tokenizer where
  "char_tokenizer s = map of_char s"

section \<open>The sampler: one step of \<open>sample_decode\<close> (lines 89-107)\<close>

text \<open>
  The tensors of the source hold floating-point numbers, of the precision that the device
  fixes (line 61: half precision unless the device is the cpu), and the operations on them
  are the library's. The embedding does not fix that arithmetic: the type \<open>'f\<close> of the
  elements and the library's operations on them are a parameter, the record \<open>arith\<close>.
  Nothing is assumed about them; a property that needs a fact about the arithmetic states
  it as a hypothesis. What the library calls raise is written into the model. The Python
  scalars \<open>temperature\<close> and \<open>top_p\<close> are real numbers. The batch dimension of the tensors is
  1 (one prompt), and the embedding keeps the single row.
\<close>

record 'f arith =
  fzero :: 'f                                          \<comment> \<open>the element \<open>0.0\<close>\<close>
  scale :: "'f \<Rightarrow> real \<Rightarrow> 'f"                           \<comment> \<open>an element divided by a Python scalar\<close>
  softmax :: "'f list \<Rightarrow> 'f list"                      \<comment> \<open>\<open>torch.softmax\<close>\<close>
  sort_descending :: "'f list \<Rightarrow> 'f list \<times> nat list"   \<comment> \<open>\<open>torch.sort(descending=True)\<close>: values, indices\<close>
  cumsum :: "'f list \<Rightarrow> 'f list"                       \<comment> \<open>\<open>torch.cumsum\<close>\<close>
  fsub :: "'f \<Rightarrow> 'f \<Rightarrow> 'f"                              \<comment> \<open>element minus element\<close>
  exceeds :: "'f \<Rightarrow> real \<Rightarrow> bool"                       \<comment> \<open>an element \<open>>\<close> a Python scalar\<close>
  fless :: "'f \<Rightarrow> 'f \<Rightarrow> bool"                           \<comment> \<open>element \<open><\<close> element\<close>
  fmin :: "'f list \<Rightarrow> 'f"                               \<comment> \<open>\<open>torch.min\<close> of a non-empty row\<close>
  fsum :: "'f list \<Rightarrow> 'f"                               \<comment> \<open>\<open>sum\<close> of a row\<close>
  fdiv :: "'f \<Rightarrow> 'f \<Rightarrow> 'f"                              \<comment> \<open>element divided by element\<close>
  refused :: "'f \<Rightarrow> bool"                               \<comment> \<open>inf, NaN or negative: no weight for \<open>torch.multinomial\<close>\<close>
  pick :: "'f list \<Rightarrow> real \<Rightarrow> nat"                      \<comment> \<open>the position \<open>torch.multinomial\<close> draws\<close>

text \<open>The exceptions of a run. Each is raised by a library call or by Python itself; the
  source has no check of its own.\<close>

datatype failure =
    Topk_out_of_range    \<comment> \<open>\<open>torch.topk(x, k)\<close> with \<open>k\<close> negative or larger than the size of \<open>x\<close>\<close>
  | Min_of_empty         \<comment> \<open>\<open>torch.min\<close> over a dimension of size 0 (\<open>top_k = 0\<close>)\<close>
  | Invalid_weights      \<comment> \<open>\<open>torch.multinomial\<close> on weights it refuses\<close>
  | Gather_out_of_range  \<comment> \<open>\<open>torch.gather\<close> with an index outside the row\<close>
  | Unpack_None          \<comment> \<open>\<open>prompt, inputs = None\<close> raises TypeError\<close>
  | Index_empty          \<comment> \<open>\<open>[...][-1]\<close> on an empty list raises IndexError\<close>

text \<open>Lines 95-97: \<open>mask = probs_sum - probs_sort > top_p; probs_sort[mask] = 0.0\<close>.\<close>

definition top_p_filter :: "'f arith \<Rightarrow> 'f list \<Rightarrow> real \<Rightarrow> 'f list" where
  "top_p_filter A probs_sort top_p =
     (let probs_sum = cumsum A probs_sort;
          mask = map2 (\<lambda>s p. exceeds A (fsub A s p) top_p) probs_sum probs_sort
      in map2 (\<lambda>m p. if m then fzero A else p) mask probs_sort)"

text \<open>
  Line 101: \<open>torch.topk(probs_sort, top_k)\<close>, the \<open>top_k\<close> largest values in the library's
  descending order. The library raises when \<open>top_k\<close> is negative or exceeds the number of
  entries.
\<close>

definition topk :: "'f arith \<Rightarrow> 'f list \<Rightarrow> int \<Rightarrow> failure + 'f list" where
  "topk A xs k =
     (if k < 0 \<or> int (length xs) < k then Inl Topk_out_of_range
      else Inr (take (nat k) (fst (sort_descending A xs))))"

text \<open>
  Lines 100-103: with \<open>top_k\<close> not \<open>None\<close>, every entry strictly below the minimum of the
  \<open>top_k\<close> largest values becomes 0. \<open>torch.min\<close> raises on an empty selection.
\<close>

definition top_k_filter :: "'f arith \<Rightarrow> 'f list \<Rightarrow> int option \<Rightarrow> failure + 'f list" where
  "top_k_filter A probs_sort top_k =
     (case top_k of
        None \<Rightarrow> Inr probs_sort
      | Some k \<Rightarrow>
          (case topk A probs_sort k of
             Inl e \<Rightarrow> Inl e
           | Inr probs_sort1 \<Rightarrow>
               if probs_sort1 = [] then Inl Min_of_empty
               else let min_top_probs_sort = fmin A probs_sort1
                    in Inr (map (\<lambda>p. if fless A p min_top_probs_sort then fzero A else p)
                              probs_sort)))"

text \<open>Line 105: \<open>probs_sort.div_(probs_sort.sum(dim=-1, keepdim=True))\<close>. No exception: a
  sum of 0 gives the elements that the division of the arithmetic gives.\<close>

definition renormalize :: "'f arith \<Rightarrow> 'f list \<Rightarrow> 'f list" where
  "renormalize A probs_sort = map (\<lambda>p. fdiv A p (fsum A probs_sort)) probs_sort"

text \<open>
  Line 106: \<open>torch.multinomial(probs_sort, num_samples=1)\<close>. The library raises on an empty
  row, on a row with an element that is inf, NaN or negative, and on a row whose sum is not
  positive; otherwise it draws a position. The randomness of the draw is the number \<open>u\<close>.
\<close>

definition multinomial :: "'f arith \<Rightarrow> 'f list \<Rightarrow> real \<Rightarrow> failure + nat" where
  "multinomial A weights u =
     (if weights = [] \<or> list_ex (refused A) weights \<or> \<not> exceeds A (fsum A weights) 0
      then Inl Invalid_weights
      else Inr (pick A weights u))"

text \<open>Line 107: \<open>torch.gather(probs_idx, -1, next_token)\<close>.\<close>

definition gather :: "nat list \<Rightarrow> nat \<Rightarrow> failure + nat" where
  "gather probs_idx j = (if j < length probs_idx then Inr (probs_idx ! j) else Inl Gather_out_of_range)"

text \<open>
  Lines 89-107, from the logits of the last position to the next token: temperature,
  softmax, sort, top-p, top-k, renormalisation, draw, and the way back to the vocabulary
  index. There is no check of \<open>temperature\<close>, \<open>top_p\<close> or \<open>top_k\<close> in the source: the first
  operation is the division of line 90.
\<close>

definition sampler ::
  "'f arith \<Rightarrow> 'f list \<Rightarrow> real \<Rightarrow> real \<Rightarrow> int option \<Rightarrow> real \<Rightarrow> failure + nat" where
  "sampler A logits temperature top_p top_k u =
     (let logits' = map (\<lambda>l. scale A l temperature) logits;
          probs = softmax A logits';
          (probs_sort, probs_idx) = sort_descending A probs;
          probs_sort' = top_p_filter A probs_sort top_p
      in case top_k_filter A probs_sort' top_k of
           Inl e \<Rightarrow> Inl e
         | Inr probs_sort'' \<Rightarrow>
             (case multinomial A (renormalize A probs_sort'') u of
                Inl e \<Rightarrow> Inl e
              | Inr next_token \<Rightarrow> gather probs_idx next_token))"

section \<open>The decoder loop: \<open>sample_decode\<close> (lines 67-116)\<close>

text \<open>
  The model is a collaborator: called with token ids and the cache of the previous call
  (\<open>None\<close> at first), it returns the logits of the last position
  (\<open>outputs.logits[:, -1, :]\<close>) and its new cache (\<open>outputs.past_key_values\<close>, which may be
  \<open>None\<close>). The tokenizer's \<open>decode\<close> maps the generated ids to text. The draws are the
  randomness of the run, one number per step.
\<close>

type_synonym ('f, 'c) model = "nat list \<Rightarrow> 'c option \<Rightarrow> 'f list \<times> 'c option"

record ('f, 'c) decoder =
  tensors :: "'f arith"
  model :: "('f, 'c) model"
  decode :: "nat list \<Rightarrow> string"
  stop_words :: "string list"
  temperature :: real
  top_p :: real
  top_k :: "int option"
  draws :: "nat \<Rightarrow> real"

text \<open>Python's \<open>x in text\<close> for strings: \<open>x\<close> occurs in \<open>text\<close> as a contiguous piece.\<close>

fun str_in :: "string \<Rightarrow> string \<Rightarrow> bool" where
  "str_in x [] = (x = [])"
| "str_in x (c # cs) = (prefix x (c # cs) \<or> str_in x cs)"

text \<open>Line 115: \<open>any([x in text for x in stop_words])\<close>.\<close>

definition any_stop_word :: "string list \<Rightarrow> string \<Rightarrow> bool" where
  "any_stop_word ws text = list_ex (\<lambda>x. str_in x text) ws"

text \<open>\<open>input_ids[:, -1:]\<close>: the last column.\<close>

definition last_column :: "nat list \<Rightarrow> nat list" where
  "last_column input_ids = drop (length input_ids - 1) input_ids"

text \<open>How a run of the generator ends: a stop word (line 116), the end of
  \<open>range(max_length)\<close>, or an exception of the sampler.\<close>

datatype ending = Stop_word | Exhausted | Raised failure

text \<open>
  The loop of lines 80-116, with \<open>n\<close> iterations left at step \<open>i\<close>. The result is the list of
  the texts yielded, the final \<open>generated_tokens\<close>, and how the run ended.
\<close>

fun decode_steps ::
  "('f, 'c) decoder \<Rightarrow> nat \<Rightarrow> nat \<Rightarrow> nat list \<Rightarrow> 'c option \<Rightarrow> nat list
     \<Rightarrow> string list \<times> nat list \<times> ending" where
  "decode_steps d 0 i input_ids past_key_values generated_tokens =
     ([], generated_tokens, Exhausted)"
| "decode_steps d (Suc n) i input_ids past_key_values generated_tokens =
     (let (logits, past_key_values') =
            (if past_key_values = None then model d input_ids None
             else model d (last_column input_ids) past_key_values)
      in case sampler (tensors d) logits (temperature d) (top_p d) (top_k d) (draws d i) of
           Inl e \<Rightarrow> ([], generated_tokens, Raised e)
         | Inr next_token \<Rightarrow>
             (let input_ids' = input_ids @ [next_token];
                  generated_tokens' = generated_tokens @ [next_token];
                  text = decode d generated_tokens'
              in if any_stop_word (stop_words d) text
                 then ([text], generated_tokens', Stop_word)
                 else (case decode_steps d n (Suc i) input_ids' past_key_values' generated_tokens' of
                         (ys, g, e) \<Rightarrow> (text # ys, g, e))))"

definition sample_decode ::
  "nat list \<Rightarrow> ('f, 'c) decoder \<Rightarrow> int \<Rightarrow> string list \<times> nat list \<times> ending" where
  "sample_decode input_ids d max_length = decode_steps d (nat max_length) 0 input_ids None []"

section \<open>The caller: \<open>answer_generation\<close> (lines 142-158) and the script (line 168)\<close>

text \<open>The module-level bindings \<open>tokenizer\<close>, \<open>model\<close> and \<open>device\<close> (line 161); of the device
  the embedding keeps the arithmetic of its tensors. The draws stand for the state of the
  random number generator.\<close>

record ('f, 'c) globals =
  tokenizer :: tokenizer
  tokenizer_decode :: "nat list \<Rightarrow> string"
  global_model :: "('f, 'c) model"
  device_tensors :: "'f arith"
  rng :: "nat \<Rightarrow> real"

text \<open>\<open>ids[:, -n:]\<close> for a Python integer \<open>n\<close>: the last \<open>n\<close> columns when \<open>n > 0\<close>, everything
  when \<open>n = 0\<close> (since \<open>-0 = 0\<close>), and everything but the first \<open>-n\<close> columns when \<open>n < 0\<close>.\<close>

definition last_columns :: "int \<Rightarrow> nat list \<Rightarrow> nat list" where
  "last_columns n ids =
     (if 0 < n then drop (length ids - nat n) ids else drop (nat (- n)) ids)"

text \<open>
  The defaults of \<open>sample_decode\<close> that the call of lines 152-156 leaves in place
  (\<open>temperature = 1.0\<close>, \<open>top_p = 1.0\<close>, \<open>top_k = 25\<close>), with the stop words of line 151.
\<close>

definition default_decoder :: "('f, 'c) globals \<Rightarrow> ('f, 'c) decoder" where
  "default_decoder g =
     \<lparr> tensors = device_tensors g, model = global_model g, decode = tokenizer_decode g,
       stop_words = [''[|Human|]'', ''[|AI|]''],
       temperature = 1, top_p = 1, top_k = Some 25, draws = rng g \<rparr>"

definition answer_generation ::
  "('f, 'c) globals \<Rightarrow> string \<Rightarrow> string \<Rightarrow> string \<Rightarrow> int \<Rightarrow> real \<Rightarrow> real \<Rightarrow> int \<Rightarrow> int
     \<Rightarrow> failure + string" where
  "answer_generation g base_model adapter_model question max_length temperature' top_p' top_k'
       max_context_length_tokens =
     (case generate_prompt_with_history question [] (tokenizer g) max_length of
        None \<Rightarrow> Inl Unpack_None
      | Some (prompt, inputs) \<Rightarrow>
          (let input_ids = last_columns max_context_length_tokens inputs
           in case sample_decode input_ids (default_decoder g) 256 of
                (ys, toks, Raised e) \<Rightarrow> Inl e
              | (ys, toks, _) \<Rightarrow> if ys = [] then Inl Index_empty else Inr (last ys)))"

text \<open>
  Line 168: \<open>.replace("\n[|Human|]", "")\<close> on the answer. \<open>delete_all old k s\<close> deletes the
  occurrences of a non-empty \<open>old\<close> in \<open>s\<close> from left to right, \<open>k\<close> being the number of
  characters of the current occurrence still to skip.
\<close>

fun delete_all :: "string \<Rightarrow> nat \<Rightarrow> string \<Rightarrow> string" where
  "delete_all old k [] = []"
| "delete_all old (Suc k) (c # cs) = delete_all old k cs"
| "delete_all old 0 (c # cs) =
     (if old \<noteq> [] \<and> prefix old (c # cs) then delete_all old (length old - 1) cs
      else c # delete_all old 0 cs)"

definition strip_human_marker :: "string \<Rightarrow> string" where
  "strip_human_marker ans = delete_all ([NL] @ ''[|Human|]'') 0 ans"

section \<open>Auxiliary notions for stating the properties\<close>

text \<open>Lines 90-94 together: the softmax of the scaled logits, sorted, with the indices.\<close>

definition sorted_probs :: "'f arith \<Rightarrow> 'f list \<Rightarrow> real \<Rightarrow> 'f list \<times> nat list" where
  "sorted_probs A logits temp = sort_descending A (softmax A (map (\<lambda>l. scale A l temp) logits))"

text \<open>Lines 90-103 together: the distribution after both filters, before line 105.\<close>

definition post_filter :: "'f arith \<Rightarrow> 'f list \<Rightarrow> real \<Rightarrow> real \<Rightarrow> int option \<Rightarrow> failure + 'f list" where
  "post_filter A logits temp tp tk =
     top_k_filter A (top_p_filter A (fst (sorted_probs A logits temp)) tp) tk"







section \<open>Exact arithmetic, for concrete runs\<close>

text \<open>
  An instance of \<open>arith\<close> for evaluating the sampler at concrete inputs: the real numbers
  with exact operations, and one more element \<open>NaN\<close> for what is not a number. Infinities
  are not represented: a division by zero gives \<open>NaN\<close> here (the library gives an infinity
  when the numerator is a non-zero number). An operation on \<open>NaN\<close> gives \<open>NaN\<close>, a
  comparison with \<open>NaN\<close> is false, and the sort puts \<open>NaN\<close> first, as the library does. Equal
  values are kept in index order by the sort. Floating-point arithmetic agrees with this
  instance only where no rounding occurs.
\<close>

datatype num = Num real | NaN

fun the_nums :: "num list \<Rightarrow> real list option" where
  "the_nums [] = Some []"
| "the_nums (Num a # xs) = map_option ((#) a) (the_nums xs)"
| "the_nums (NaN # xs) = None"

fun exact_scale :: "num \<Rightarrow> real \<Rightarrow> num" where
  "exact_scale (Num a) t = (if t = 0 then NaN else Num (a / t))"
| "exact_scale NaN t = NaN"

fun exact_add :: "num \<Rightarrow> num \<Rightarrow> num" where
  "exact_add (Num a) (Num b) = Num (a + b)"
| "exact_add _ _ = NaN"

fun exact_sub :: "num \<Rightarrow> num \<Rightarrow> num" where
  "exact_sub (Num a) (Num b) = Num (a - b)"
| "exact_sub _ _ = NaN"

fun exact_div :: "num \<Rightarrow> num \<Rightarrow> num" where
  "exact_div (Num a) (Num b) = (if b = 0 then NaN else Num (a / b))"
| "exact_div _ _ = NaN"

fun exact_exceeds :: "num \<Rightarrow> real \<Rightarrow> bool" where
  "exact_exceeds (Num a) t = (t < a)"
| "exact_exceeds NaN t = False"

fun exact_less :: "num \<Rightarrow> num \<Rightarrow> bool" where
  "exact_less (Num a) (Num b) = (a < b)"
| "exact_less _ _ = False"

fun exact_refused :: "num \<Rightarrow> bool" where
  "exact_refused (Num a) = (a < 0)"
| "exact_refused NaN = True"

definition exact_softmax :: "num list \<Rightarrow> num list" where
  "exact_softmax xs =
     (case the_nums xs of
        None \<Rightarrow> map (\<lambda>x. NaN) xs
      | Some rs \<Rightarrow> map (\<lambda>r. Num (exp r / sum_list (map exp rs))) rs)"

fun sort_rank :: "num \<Rightarrow> real option" where
  "sort_rank NaN = None"
| "sort_rank (Num a) = Some (- a)"

definition exact_sort :: "num list \<Rightarrow> num list \<times> nat list" where
  "exact_sort xs =
     (let s = sort_key (\<lambda>(p, i). sort_rank p) (zip xs [0..<length xs])
      in (map fst s, map snd s))"

fun cumsum_from :: "num \<Rightarrow> num list \<Rightarrow> num list" where
  "cumsum_from a [] = []"
| "cumsum_from a (x # xs) = exact_add a x # cumsum_from (exact_add a x) xs"

definition exact_cumsum :: "num list \<Rightarrow> num list" where
  "exact_cumsum xs = cumsum_from (Num 0) xs"

definition exact_sum :: "num list \<Rightarrow> num" where
  "exact_sum xs = (case the_nums xs of None \<Rightarrow> NaN | Some rs \<Rightarrow> Num (sum_list rs))"

definition exact_min :: "num list \<Rightarrow> num" where
  "exact_min xs =
     (case the_nums xs of
        None \<Rightarrow> NaN
      | Some rs \<Rightarrow> if rs = [] then NaN else Num (min_list rs))"

text \<open>
  The draw: the first position whose running sum of weights exceeds \<open>u\<close> times the total,
  for \<open>u\<close> in the unit interval \<open>[0, 1)\<close>. A position of weight 0 is never drawn.
\<close>

fun draw_position :: "real list \<Rightarrow> real \<Rightarrow> nat option" where
  "draw_position [] u = None"
| "draw_position (w # ws) u =
     (if u < w then Some 0 else map_option Suc (draw_position ws (u - w)))"

definition exact_pick :: "num list \<Rightarrow> real \<Rightarrow> nat" where
  "exact_pick weights u =
     (case the_nums weights of
        None \<Rightarrow> 0
      | Some ws \<Rightarrow>
          (case draw_position ws (u * sum_list ws) of
             None \<Rightarrow> length ws - 1
           | Some j \<Rightarrow> j))"

definition exact_arith :: "num arith" where
  "exact_arith =
     \<lparr> fzero = Num 0, scale = exact_scale, softmax = exact_softmax,
       sort_descending = exact_sort, cumsum = exact_cumsum, fsub = exact_sub,
       exceeds = exact_exceeds, fless = exact_less, fmin = exact_min, fsum = exact_sum,
       fdiv = exact_div, refused = exact_refused, pick = exact_pick \<rparr>"


section \<open>A stub model for concrete runs\<close>

text \<open>
  A vocabulary of 25 tokens: the ids 0 to 5 decode to the pieces of
  \<open>Hi there![|Human|]\<close>, the other ids to a question mark. The stub model counts its calls
  in its cache, and at call \<open>n\<close> returns logits that favour token \<open>n\<close>: it emits the pieces
  one token at a time. The tokenizer of the stub globals is \<open>char_tokenizer\<close>, the
  arithmetic is exact, and every draw is 0, which selects the most probable token.
\<close>

definition stub_pieces :: "string list" where
  "stub_pieces = [''Hi'', '' there'', ''!'', ''[|'', ''Human'', ''|]'']"

definition stub_decode :: "nat list \<Rightarrow> string" where
  "stub_decode ids = concat (map (\<lambda>i. if i < length stub_pieces then stub_pieces ! i else ''?'') ids)"

definition stub_logits :: "nat \<Rightarrow> num list" where
  "stub_logits t = map (\<lambda>j. Num (if j = t then ln 2 else 0)) [0..<25]"

definition stub_model :: "(num, nat) model" where
  "stub_model ids past = (let n = (case past of None \<Rightarrow> 0 | Some n \<Rightarrow> n) in (stub_logits n, Some (n + 1)))"

definition stub_globals :: "(num, nat) globals" where
  "stub_globals = \<lparr> tokenizer = char_tokenizer, tokenizer_decode = stub_decode,
                     global_model = stub_model, device_tensors = exact_arith,
                     rng = (\<lambda>i. 0) \<rparr>"

section \<open>Properties of the context assembler\<close>

lemma history_walk_commits:
  "history_walk tk m xs (acc, flag) =
     (concat (rev (take (commits tk m xs acc) xs)) @ acc, flag \<or> 0 < commits tk m xs acc)"
  by (induction xs arbitrary: acc flag) auto

lemma commits_le_length: "commits tk m xs acc \<le> length xs"
  by (induction xs arbitrary: acc) auto

lemma commits_mono: "m1 \<le> m2 \<Longrightarrow> commits tk m1 xs acc \<le> commits tk m2 xs acc"
  by (induction xs arbitrary: acc) auto

lemma length_prompt_preamble: "length prompt_preamble = 667"
  by code_simp

lemma prompt_structure:
  assumes "generate_prompt_with_history text history tk m = Some (p, ids)"
  shows "p = prompt_preamble
             @ concat (map format_turn (drop (length history - included_turns text history tk m) history))
             @ format_text text"
    and "ids = tk p"
    and "included_turns text history tk m \<le> length history"
    and "int (length (tk (prompt_preamble @ format_text text))) \<le> m"
proof -
  let ?ts = "rev (map format_turn history)"
  let ?c = "commits tk m (format_text text # ?ts) []"
  have walk: "history_walk tk m (format_text text # ?ts) ([], False)
                = (concat (rev (take ?c (format_text text # ?ts))), 0 < ?c)"
    using history_walk_commits [of tk m "format_text text # ?ts" "[]" False] by simp
  from assms have pos: "0 < ?c" and p: "p = prompt_preamble @ concat (rev (take ?c (format_text text # ?ts)))"
    and ids: "ids = tk p"
    by (auto simp: generate_prompt_with_history_def walk Let_def simp del: history_walk.simps commits.simps
        split: if_splits)
  from pos obtain j where j: "?c = Suc j" by (cases ?c) auto
  have inc: "included_turns text history tk m = j"
    using j by (simp add: included_turns_def del: commits.simps)
  have "j \<le> length history"
    using commits_le_length [of tk m "format_text text # ?ts" "[]"] j by simp
  then show "included_turns text history tk m \<le> length history" by (simp add: inc)
  have "rev (take j ?ts) = drop (length history - j) (map format_turn history)"
    by (simp add: rev_take)
  then show "p = prompt_preamble
             @ concat (map format_turn (drop (length history - included_turns text history tk m) history))
             @ format_text text"
    by (simp add: p j inc drop_map del: commits.simps)
  show "ids = tk p" by (rule ids)
  from pos show "int (length (tk (prompt_preamble @ format_text text))) \<le> m"
    by (simp split: if_splits)
qed

lemma prompt_none_iff:
  "generate_prompt_with_history text history tk m = None
     \<longleftrightarrow> m < int (length (tk (prompt_preamble @ format_text text)))"
  by (auto simp: generate_prompt_with_history_def Let_def history_walk_commits split: if_splits prod.splits)

text \<open>
  Claim C10. The assembler is monotonic in the budget: for a fixed new utterance and
  history and budgets \<open>m1 \<le> m2\<close> for which assembly succeeds, the prompt assembled with
  \<open>m2\<close> includes at least as many history turns as the one assembled with \<open>m1\<close>. Each
  prompt is the preamble, the most recent \<open>included_turns\<close> turns of the history in their
  order, and the new utterance.
\<close>

theorem budget_monotone:
  assumes "m1 \<le> m2"
    and "generate_prompt_with_history text history tk m1 = Some (p1, ids1)"
    and "generate_prompt_with_history text history tk m2 = Some (p2, ids2)"
  shows "included_turns text history tk m1 \<le> included_turns text history tk m2
       \<and> included_turns text history tk m2 \<le> length history
       \<and> p1 = prompt_preamble
             @ concat (map format_turn (drop (length history - included_turns text history tk m1) history))
             @ format_text text
       \<and> p2 = prompt_preamble
             @ concat (map format_turn (drop (length history - included_turns text history tk m2) history))
             @ format_text text"
proof -
  have "included_turns text history tk m1 \<le> included_turns text history tk m2"
    unfolding included_turns_def by (rule diff_le_mono [OF commits_mono [OF assms(1)]])
  with prompt_structure [OF assms(2)] prompt_structure [OF assms(3)] show ?thesis by simp
qed

theorem budget_monotone_witness:
  "generate_prompt_with_history ''c'' [(''a'', ''b'')] char_tokenizer 690
     = Some (prompt_preamble @ format_text ''c'',
             char_tokenizer (prompt_preamble @ format_text ''c''))
   \<and> generate_prompt_with_history ''c'' [(''a'', ''b'')] char_tokenizer 704
     = Some (prompt_preamble @ format_turn (''a'', ''b'') @ format_text ''c'',
             char_tokenizer (prompt_preamble @ format_turn (''a'', ''b'') @ format_text ''c''))
   \<and> included_turns ''c'' [(''a'', ''b'')] char_tokenizer 690 = 0
   \<and> included_turns ''c'' [(''a'', ''b'')] char_tokenizer 704 = 1
   \<and> included_turns ''c'' [(''a'', ''b'')] char_tokenizer 690
       \<le> included_turns ''c'' [(''a'', ''b'')] char_tokenizer 704"
proof -
  have h1: "generate_prompt_with_history ''c'' [(''a'', ''b'')] char_tokenizer 690
     = Some (prompt_preamble @ format_text ''c'',
             char_tokenizer (prompt_preamble @ format_text ''c''))"
    by (simp add: generate_prompt_with_history_def char_tokenizer_def length_prompt_preamble
        format_text_def format_turn_def)
  have h2: "generate_prompt_with_history ''c'' [(''a'', ''b'')] char_tokenizer 704
     = Some (prompt_preamble @ format_turn (''a'', ''b'') @ format_text ''c'',
             char_tokenizer (prompt_preamble @ format_turn (''a'', ''b'') @ format_text ''c''))"
    by (simp add: generate_prompt_with_history_def char_tokenizer_def length_prompt_preamble
        format_text_def format_turn_def)
  have i1: "included_turns ''c'' [(''a'', ''b'')] char_tokenizer 690 = 0"
    by (simp add: included_turns_def char_tokenizer_def length_prompt_preamble
        format_text_def format_turn_def)
  have i2: "included_turns ''c'' [(''a'', ''b'')] char_tokenizer 704 = 1"
    by (simp add: included_turns_def char_tokenizer_def length_prompt_preamble
        format_text_def format_turn_def)
  have le: "(690::int) \<le> 704" by simp
  from budget_monotone [OF le h1 h2] h1 h2 i1 i2 show ?thesis by simp
qed

text \<open>
  Claim C7, at a failing input. The only turn of the history, \<open>("a", "b")\<close>, does not fit in
  the budget of 703 tokens when it is put before the accumulator: the prompt with it has 704
  tokens under \<open>pair_tokenizer\<close>. The walk tests the turn after the accumulator (703 tokens,
  the junction \<open>]\<close>, newline being one token there), commits it, and returns the prompt of
  704 tokens with the turn in it.
\<close>

theorem short_circuit_failing_input:
  "length (pair_tokenizer (prompt_preamble @ format_turn (''a'', ''b'') @ format_text ''c'')) = 704
   \<and> length (pair_tokenizer (prompt_preamble @ format_text ''c'' @ format_turn (''a'', ''b''))) = 703
   \<and> generate_prompt_with_history ''c'' [(''a'', ''b'')] pair_tokenizer 703
       = Some (prompt_preamble @ format_turn (''a'', ''b'') @ format_text ''c'',
               pair_tokenizer (prompt_preamble @ format_turn (''a'', ''b'') @ format_text ''c''))"
  by code_simp

text \<open>
  Claim C8, at a failing input. With the budget \<open>max_length = 710\<close>, the new utterance
  \<open>"Bye"\<close>, the history \<open>[("Hi", "Hello")]\<close> and \<open>pair_tokenizer\<close>, assembly succeeds and the
  prompt returned has 711 tokens.
\<close>

theorem budget_failing_input:
  "map_option (\<lambda>(p, ids). (p, length ids, length (pair_tokenizer p)))
     (generate_prompt_with_history ''Bye'' [(''Hi'', ''Hello'')] pair_tokenizer 710)
   = Some (prompt_preamble @ format_turn (''Hi'', ''Hello'') @ format_text ''Bye'', 711, 711)"
  by code_simp

section \<open>Properties of the sampler\<close>

subsection \<open>The top-p filter\<close>






subsection \<open>The top-k filter\<close>








subsection \<open>The sampler\<close>

lemma sampler_failures:
  "sampler A logits temp tp tk u = Inl e \<Longrightarrow>
     e = Topk_out_of_range \<or> e = Min_of_empty \<or> e = Invalid_weights \<or> e = Gather_out_of_range"
  unfolding sampler_def top_k_filter_def topk_def multinomial_def gather_def Let_def
  by (auto split: prod.splits option.splits sum.splits if_splits)

lemma sampler_post_filter:
  "sampler A logits temp tp tk u =
     (case post_filter A logits temp tp tk of
        Inl e \<Rightarrow> Inl e
      | Inr qs \<Rightarrow>
          (case multinomial A (renormalize A qs) u of
             Inl e \<Rightarrow> Inl e
           | Inr j \<Rightarrow> gather (snd (sorted_probs A logits temp)) j))"
  unfolding sampler_def post_filter_def sorted_probs_def Let_def case_prod_unfold by simp

text \<open>
  Claim C2, as amended. The sampler validates neither \<open>temperature\<close> nor \<open>top_p\<close>: for every
  temperature, 0 and the negative ones included, and every \<open>top_p\<close>, the division of line 90
  is carried out, and the step yields what it yields for the divided logits at temperature
  1 (the hypothesis: dividing an element by the scalar 1 leaves it as it is). The only
  exceptions of a step are those of the library calls of lines 101 to 107.
\<close>

theorem sampler_no_validation:
  assumes "\<forall>l\<in>set logits. scale A (scale A l temp) 1 = scale A l temp"
  shows "sampler A logits temp tp tk u = sampler A (map (\<lambda>l. scale A l temp) logits) 1 tp tk u
       \<and> (\<forall>e. sampler A logits temp tp tk u = Inl e \<longrightarrow>
              e = Topk_out_of_range \<or> e = Min_of_empty \<or> e = Invalid_weights
              \<or> e = Gather_out_of_range)"
proof -
  from assms have "map ((\<lambda>l. scale A l 1) \<circ> (\<lambda>l. scale A l temp)) logits
                     = map (\<lambda>l. scale A l temp) logits"
    by simp
  then have "sampler A logits temp tp tk u = sampler A (map (\<lambda>l. scale A l temp) logits) 1 tp tk u"
    unfolding sampler_def Let_def map_map by (simp only:)
  then show ?thesis using sampler_failures [of A logits temp tp tk u] by blast
qed


lemma multinomial_zero_row:
  assumes "\<forall>q\<in>set qs. q = fzero A"
    and "qs \<noteq> [] \<longrightarrow> refused A (fdiv A (fzero A) (fsum A qs))"
  shows "multinomial A (renormalize A qs) u = Inl Invalid_weights"
proof (cases qs)
  case Nil
  then show ?thesis by (simp add: multinomial_def renormalize_def)
next
  case (Cons q qs')
  with assms have "refused A (fdiv A q (fsum A qs))" by simp
  then have "list_ex (refused A) (renormalize A qs)"
    using Cons by (auto simp: renormalize_def list_ex_iff)
  then show ?thesis by (simp add: multinomial_def)
qed

subsection \<open>The exact arithmetic\<close>

lemmas exact_defs = exact_arith_def exact_softmax_def exact_sort_def exact_cumsum_def
  exact_sum_def exact_min_def exact_pick_def

lemmas sampler_defs = sampler_def top_p_filter_def top_k_filter_def topk_def renormalize_def
  multinomial_def gather_def Let_def





lemma exact_scale_one: "scale exact_arith x 1 = x"
  by (cases x) (simp_all add: exact_arith_def)

subsection \<open>Concrete steps\<close>

text \<open>
  Two steps on the logits \<open>0, ln 2\<close>: temperature \<open>-1\<close> with \<open>top_p = 2\<close> gives token 0;
  temperature 0 is divided by as well, and the only exception is the one of
  \<open>torch.multinomial\<close> at line 106.
\<close>

theorem sampler_no_validation_witness:
  "sampler exact_arith [Num 0, Num (ln 2)] (- 1) 2 (Some 2) 0
     = sampler exact_arith (map (\<lambda>l. scale exact_arith l (- 1)) [Num 0, Num (ln 2)]) 1 2 (Some 2) 0
   \<and> sampler exact_arith [Num 0, Num (ln 2)] (- 1) 2 (Some 2) 0 = Inr 0
   \<and> sampler exact_arith [Num 0, Num (ln 2)] 0 1 (Some 2) 0
     = sampler exact_arith (map (\<lambda>l. scale exact_arith l 0) [Num 0, Num (ln 2)]) 1 1 (Some 2) 0
   \<and> sampler exact_arith [Num 0, Num (ln 2)] 0 1 (Some 2) 0 = Inl Invalid_weights"
proof -
  have a: "sampler exact_arith [Num 0, Num (ln 2)] (- 1) 2 (Some 2) 0
     = sampler exact_arith (map (\<lambda>l. scale exact_arith l (- 1)) [Num 0, Num (ln 2)]) 1 2 (Some 2) 0"
    by (rule sampler_no_validation [THEN conjunct1]) (simp add: exact_scale_one)
  have b: "sampler exact_arith [Num 0, Num (ln 2)] 0 1 (Some 2) 0
     = sampler exact_arith (map (\<lambda>l. scale exact_arith l 0) [Num 0, Num (ln 2)]) 1 1 (Some 2) 0"
    by (rule sampler_no_validation [THEN conjunct1]) (simp add: exact_scale_one)
  have c: "sampler exact_arith [Num 0, Num (ln 2)] (- 1) 2 (Some 2) 0 = Inr 0"
    by (simp add: sampler_defs exact_defs exp_minus)
  have d: "sampler exact_arith [Num 0, Num (ln 2)] 0 1 (Some 2) 0 = Inl Invalid_weights"
    by (simp add: sampler_defs exact_defs)
  from a b c d show ?thesis by (intro conjI)
qed

text \<open>
  Claim C2 as stated fails: with temperature \<open>-1\<close>, with \<open>top_p = 2\<close> and with \<open>top_p = 0\<close>
  the sampler returns a token id and no error.
\<close>

theorem sampler_validation_counterexample:
  "sampler exact_arith [Num 0, Num (ln 2)] (- 1) 1 (Some 2) 0 = Inr 0
   \<and> sampler exact_arith [Num 0, Num (ln 2)] 1 2 (Some 2) 0 = Inr 1
   \<and> sampler exact_arith [Num 0, Num (ln 2)] 1 0 (Some 2) 0 = Inr 1"
  by (simp add: sampler_defs exact_defs exp_minus)








section \<open>Properties of the decoder loop and of the caller\<close>

lemma decode_steps_spec:
  assumes "decode_steps d n i ids past gen = (ys, toks, e)"
  shows "\<exists>new. toks = gen @ new \<and> length new = length ys \<and> length ys \<le> n
           \<and> (\<forall>j<length ys. ys ! j = decode d (gen @ take (Suc j) new))
           \<and> (\<forall>j<length ys. any_stop_word (stop_words d) (ys ! j) \<longleftrightarrow> (e = Stop_word \<and> Suc j = length ys))
           \<and> (e = Stop_word \<longrightarrow> ys \<noteq> [])
           \<and> (e = Exhausted \<longrightarrow> length ys = n)
           \<and> (\<forall>f. e = Raised f \<longrightarrow> length ys < n)"
  using assms
proof (induction n arbitrary: i ids past gen ys toks e)
  case 0
  then show ?case by simp
next
  case (Suc n)
  obtain logits past' where m: "(if past = None then model d ids None
             else model d (last_column ids) past) = (logits, past')"
    by (cases "if past = None then model d ids None else model d (last_column ids) past")
  show ?case
  proof (cases "sampler (tensors d) logits (temperature d) (top_p d) (top_k d) (draws d i)")
    case (Inl f)
    with Suc.prems m have "ys = []" "toks = gen" "e = Raised f" by simp_all
    then show ?thesis by simp
  next
    case (Inr t)
    let ?text = "decode d (gen @ [t])"
    show ?thesis
    proof (cases "any_stop_word (stop_words d) ?text")
      case True
      with Suc.prems m Inr have "ys = [?text]" "toks = gen @ [t]" "e = Stop_word"
        by (auto simp: Let_def)
      with True show ?thesis by simp
    next
      case False
      obtain ys' g e' where r: "decode_steps d n (Suc i) (ids @ [t]) past' (gen @ [t]) = (ys', g, e')"
        by (cases "decode_steps d n (Suc i) (ids @ [t]) past' (gen @ [t])")
      with Suc.prems m Inr False have res: "ys = ?text # ys'" "toks = g" "e = e'"
        by (auto simp: Let_def)
      from Suc.IH [OF r] obtain new' where new':
        "g = (gen @ [t]) @ new'" "length new' = length ys'" "length ys' \<le> n"
        "\<forall>j<length ys'. ys' ! j = decode d ((gen @ [t]) @ take (Suc j) new')"
        "\<forall>j<length ys'. any_stop_word (stop_words d) (ys' ! j) \<longleftrightarrow> (e' = Stop_word \<and> Suc j = length ys')"
        "e' = Stop_word \<longrightarrow> ys' \<noteq> []"
        "e' = Exhausted \<longrightarrow> length ys' = n"
        "\<forall>f. e' = Raised f \<longrightarrow> length ys' < n"
        by blast
      let ?new = "t # new'"
      have 1: "toks = gen @ ?new" using res new'(1) by simp
      have 2: "length ?new = length ys" using res new'(2) by simp
      have 3: "length ys \<le> Suc n" using res new'(3) by simp
      have 4: "\<forall>j<length ys. ys ! j = decode d (gen @ take (Suc j) ?new)"
      proof (intro allI impI)
        fix j assume "j < length ys"
        then show "ys ! j = decode d (gen @ take (Suc j) ?new)"
          using res new'(4) by (cases j) simp_all
      qed
      have 5: "\<forall>j<length ys. any_stop_word (stop_words d) (ys ! j) \<longleftrightarrow> (e = Stop_word \<and> Suc j = length ys)"
      proof (intro allI impI)
        fix j assume "j < length ys"
        then show "any_stop_word (stop_words d) (ys ! j) \<longleftrightarrow> (e = Stop_word \<and> Suc j = length ys)"
          using res new'(5,6) False by (cases j) auto
      qed
      have 6: "e = Stop_word \<longrightarrow> ys \<noteq> []" using res by simp
      have 7: "e = Exhausted \<longrightarrow> length ys = Suc n" using res new'(7) by simp
      have 8: "\<forall>f. e = Raised f \<longrightarrow> length ys < Suc n" using res new'(8) by simp
      from 1 2 3 4 5 6 7 8 show ?thesis by blast
    qed
  qed
qed

text \<open>
  Claim C6. A run of the decoder loop yields at most \<open>max_length\<close> texts; the \<open>j\<close>-th text
  is the decoding of the first \<open>j + 1\<close> generated tokens; a yielded text contains a stop
  word exactly when it is the last one of a run that ended at a stop word. So when the stop
  word first appears in the text of \<open>n + 1\<close> tokens, the run yields exactly \<open>n + 1\<close> texts. A
  run that ends otherwise either used all its \<open>max_length\<close> steps or stopped earlier at an
  exception of the sampler.
\<close>

theorem sample_decode_yields:
  assumes "sample_decode input_ids d max_length = (ys, toks, e)"
  shows "length ys \<le> nat max_length
       \<and> length toks = length ys
       \<and> (\<forall>j<length ys. ys ! j = decode d (take (Suc j) toks))
       \<and> (\<forall>j<length ys. any_stop_word (stop_words d) (ys ! j) \<longleftrightarrow> (e = Stop_word \<and> Suc j = length ys))
       \<and> (e = Stop_word \<longrightarrow> ys \<noteq> [])
       \<and> (e = Exhausted \<longrightarrow> length ys = nat max_length)
       \<and> (\<forall>f. e = Raised f \<longrightarrow> length ys < nat max_length)"
  using decode_steps_spec [OF assms [unfolded sample_decode_def]] by auto

text \<open>
  Claim C3. \<open>answer_generation\<close> does not use \<open>base_model\<close>, \<open>adapter_model\<close>,
  \<open>temperature\<close>, \<open>top_p\<close> and \<open>top_k\<close>: two calls that agree on the other arguments, the
  globals and the draws give the same result, and the decoder always runs with temperature
  1, \<open>top_p = 1\<close>, \<open>top_k = 25\<close> and 256 steps.
\<close>

theorem answer_generation_ignores_parameters:
  "answer_generation g base_model adapter_model question max_length temp tp tk mctx
     = answer_generation g base_model' adapter_model' question max_length temp' tp' tk' mctx
   \<and> answer_generation g base_model adapter_model question max_length temp tp tk mctx
     = (case generate_prompt_with_history question [] (tokenizer g) max_length of
          None \<Rightarrow> Inl Unpack_None
        | Some (prompt, inputs) \<Rightarrow>
            (case sample_decode (last_columns mctx inputs)
                    \<lparr> tensors = device_tensors g, model = global_model g,
                      decode = tokenizer_decode g,
                      stop_words = [''[|Human|]'', ''[|AI|]''],
                      temperature = 1, top_p = 1, top_k = Some 25, draws = rng g \<rparr> 256 of
               (ys, toks, Raised e) \<Rightarrow> Inl e
             | (ys, toks, _) \<Rightarrow> if ys = [] then Inl Index_empty else Inr (last ys)))"
  unfolding answer_generation_def default_decoder_def Let_def by simp

lemma delete_all_absent: "\<not> str_in old s \<Longrightarrow> delete_all old 0 s = s"
  by (induction s) auto

lemma delete_all_skip: "length xs = k \<Longrightarrow> delete_all old k (xs @ b) = delete_all old 0 b"
proof (induction xs arbitrary: k)
  case Nil
  then show ?case by simp
next
  case (Cons x xs)
  then show ?case by (cases k) auto
qed

lemma delete_all_first:
  assumes "old \<noteq> []" and "\<not> str_in old (a @ butlast old)"
  shows "delete_all old 0 (a @ old @ b) = a @ delete_all old 0 b"
  using assms(2)
proof (induction a)
  case Nil
  from assms(1) obtain c cs where old: "old = c # cs" by (cases old) auto
  have "delete_all old 0 (old @ b) = delete_all old (length old - 1) (cs @ b)"
    by (simp add: old)
  also have "\<dots> = delete_all old 0 b"
    by (rule delete_all_skip) (simp add: old)
  finally show ?case by simp
next
  case (Cons x a)
  from Cons.prems have np: "\<not> prefix old (x # a @ butlast old)"
    and ns: "\<not> str_in old (a @ butlast old)"
    by simp_all
  have "\<not> prefix old (x # a @ old @ b)"
  proof
    assume p: "prefix old (x # a @ old @ b)"
    have "old = butlast old @ [last old]" using assms(1) by simp
    then have "x # a @ old @ b = (x # a @ butlast old) @ ([last old] @ b)"
      by (metis append.assoc append_Cons)
    then have "prefix (x # a @ butlast old) (x # a @ old @ b)"
      by (metis prefixI)
    moreover have "length old \<le> length (x # a @ butlast old)" by simp
    ultimately have "prefix old (x # a @ butlast old)"
      using p by (rule prefix_length_prefix [rotated])
    with np show False by simp
  qed
  then have "delete_all old 0 (x # a @ old @ b) = x # delete_all old 0 (a @ old @ b)"
    by simp
  with Cons.IH [OF ns] show ?case by simp
qed

text \<open>
  Claim C1, as amended. When the prompt fits and the decoder ends at a stop word,
  \<open>answer_generation\<close> returns the last text yielded, unchanged: it still contains the stop
  word. The replacement of line 168 deletes the occurrences of newline followed by
  \<open>[|Human|]\<close> and nothing else: a text without an occurrence stays as it is, and a text
  whose first occurrence comes after \<open>a\<close> becomes \<open>a\<close> followed by the replacement of what
  comes after that occurrence.
\<close>

theorem answer_is_last_yield:
  assumes "generate_prompt_with_history question [] (tokenizer g) max_length = Some (prompt, inputs)"
    and "sample_decode (last_columns mctx inputs) (default_decoder g) 256 = (ys, toks, Stop_word)"
  shows "answer_generation g base_model adapter_model question max_length temp tp tk mctx
           = Inr (last ys)
       \<and> ys \<noteq> [] \<and> any_stop_word [''[|Human|]'', ''[|AI|]''] (last ys)
       \<and> (\<not> str_in ([NL] @ ''[|Human|]'') s \<longrightarrow> strip_human_marker s = s)
       \<and> (\<not> str_in ([NL] @ ''[|Human|]'') (a @ butlast ([NL] @ ''[|Human|]'')) \<longrightarrow>
            strip_human_marker (a @ ([NL] @ ''[|Human|]'') @ b) = a @ strip_human_marker b)"
proof -
  from decode_steps_spec [OF assms(2) [unfolded sample_decode_def]]
  have ne: "ys \<noteq> []"
    and st: "\<forall>j<length ys. any_stop_word (stop_words (default_decoder g)) (ys ! j) \<longleftrightarrow> Suc j = length ys"
    by auto
  from ne st have "any_stop_word (stop_words (default_decoder g)) (ys ! (length ys - 1))"
    by (cases ys) auto
  then have 1: "any_stop_word [''[|Human|]'', ''[|AI|]''] (last ys)"
    using ne by (simp add: default_decoder_def last_conv_nth)
  have 2: "answer_generation g base_model adapter_model question max_length temp tp tk mctx
           = Inr (last ys)"
    using assms ne by (simp add: answer_generation_def)
  have 3: "\<not> str_in ([NL] @ ''[|Human|]'') s \<longrightarrow> strip_human_marker s = s"
    unfolding strip_human_marker_def by (auto dest: delete_all_absent)
  have 4: "\<not> str_in ([NL] @ ''[|Human|]'') (a @ butlast ([NL] @ ''[|Human|]'')) \<longrightarrow>
            strip_human_marker (a @ ([NL] @ ''[|Human|]'') @ b) = a @ strip_human_marker b"
    unfolding strip_human_marker_def by (intro impI delete_all_first) simp_all
  from 1 2 3 4 ne show ?thesis by blast
qed

text \<open>
  Claim C5. In a decode step whose distribution after the filters is all zero,
  \<open>torch.multinomial\<close> raises (line 106), no token is returned, and the run of the decoder
  ends at that step with the exception and without a further yield. The hypothesis on
  the arithmetic: 0 divided by the sum of the zeros is an element that
  \<open>torch.multinomial\<close> refuses (in IEEE arithmetic the sum is 0 and 0/0 is NaN).
\<close>

theorem zero_distribution_raises:
  assumes "(if past = None then model d ids None else model d (last_column ids) past)
             = (logits, past')"
    and "post_filter (tensors d) logits (temperature d) (top_p d) (top_k d) = Inr qs"
    and "\<forall>q\<in>set qs. q = fzero (tensors d)"
    and "qs \<noteq> [] \<longrightarrow> refused (tensors d) (fdiv (tensors d) (fzero (tensors d)) (fsum (tensors d) qs))"
  shows "sampler (tensors d) logits (temperature d) (top_p d) (top_k d) (draws d i)
           = Inl Invalid_weights
       \<and> decode_steps d (Suc n) i ids past gen = ([], gen, Raised Invalid_weights)"
proof -
  have s: "sampler (tensors d) logits (temperature d) (top_p d) (top_k d) (draws d i)
           = Inl Invalid_weights"
    using assms(2) multinomial_zero_row [OF assms(3,4)]
    by (simp add: sampler_post_filter)
  with assms(1) show ?thesis by (simp add: Let_def)
qed

section \<open>Runs of the stub\<close>

lemma upt_25: "[0..<25] = [0,1,2,3,4,5,6,7,8,9,10,11,12,13,14,15,16,17,18,19,20,21,22,23,24]"
  by code_simp

lemma stub_sampler:
  "sampler exact_arith (stub_logits 0) 1 1 (Some 25) 0 = Inr 0"
  "sampler exact_arith (stub_logits 1) 1 1 (Some 25) 0 = Inr 1"
  "sampler exact_arith (stub_logits 2) 1 1 (Some 25) 0 = Inr 2"
  "sampler exact_arith (stub_logits 3) 1 1 (Some 25) 0 = Inr 3"
  "sampler exact_arith (stub_logits 4) 1 1 (Some 25) 0 = Inr 4"
  "sampler exact_arith (stub_logits 5) 1 1 (Some 25) 0 = Inr 5"
  by (simp_all add: stub_logits_def upt_25 sampler_defs exact_defs)

lemma decode_steps_Suc_Inr:
  assumes "(if past = None then model d ids None else model d (last_column ids) past) = (logits, past')"
    and "sampler (tensors d) logits (temperature d) (top_p d) (top_k d) (draws d i) = Inr t"
  shows "decode_steps d (Suc n) i ids past gen =
       (if any_stop_word (stop_words d) (decode d (gen @ [t]))
        then ([decode d (gen @ [t])], gen @ [t], Stop_word)
        else (case decode_steps d n (Suc i) (ids @ [t]) past' (gen @ [t]) of
                (ys, g, e) \<Rightarrow> (decode d (gen @ [t]) # ys, g, e)))"
  using assms by (simp add: Let_def)

lemma stub_decode_snoc:
  "stub_decode (gen @ [t]) = stub_decode gen @ (if t < length stub_pieces then stub_pieces ! t else ''?'')"
  by (simp add: stub_decode_def)

lemma stub_model_simps:
  "model (default_decoder stub_globals) xs None = (stub_logits 0, Some 1)"
  "model (default_decoder stub_globals) xs (Some k) = (stub_logits k, Some (k + 1))"
  by (simp_all add: default_decoder_def stub_globals_def stub_model_def)

lemma stub_config:
  "tensors (default_decoder stub_globals) = exact_arith"
  "temperature (default_decoder stub_globals) = 1"
  "top_p (default_decoder stub_globals) = 1"
  "top_k (default_decoder stub_globals) = Some 25"
  "draws (default_decoder stub_globals) i = 0"
  "stop_words (default_decoder stub_globals) = [''[|Human|]'', ''[|AI|]'']"
  "decode (default_decoder stub_globals) = stub_decode"
  by (simp_all add: default_decoder_def stub_globals_def)

lemma stub_run:
  "sample_decode ids (default_decoder stub_globals) 256
     = ([''Hi'', ''Hi there'', ''Hi there!'', ''Hi there![|'', ''Hi there![|Human'',
         ''Hi there![|Human|]''], [0, 1, 2, 3, 4, 5], Stop_word)"
proof -
  define D where "D = default_decoder stub_globals"
  note ev = stub_config [folded D_def] stub_model_simps [folded D_def] stub_sampler
    stub_sampler(2) [unfolded One_nat_def] stub_decode_snoc stub_pieces_def any_stop_word_def
  have r5: "decode_steps D (Suc n) i xs (Some 5) gen
      = ([''Hi there![|Human|]''], gen @ [5], Stop_word)"
    if "stub_decode gen = ''Hi there![|Human''" for n i xs gen
    by (subst decode_steps_Suc_Inr [where logits = "stub_logits 5" and past' = "Some 6" and t = 5])
      (simp_all add: ev that del: decode_steps.simps)
  have r4: "decode_steps D (Suc (Suc n)) i xs (Some 4) gen
      = ([''Hi there![|Human'', ''Hi there![|Human|]''], gen @ [4, 5], Stop_word)"
    if "stub_decode gen = ''Hi there![|''" for n i xs gen
    by (subst decode_steps_Suc_Inr [where logits = "stub_logits 4" and past' = "Some 5" and t = 4])
      (simp_all add: ev that r5 del: decode_steps.simps)
  have r3: "decode_steps D (Suc (Suc (Suc n))) i xs (Some 3) gen
      = ([''Hi there![|'', ''Hi there![|Human'', ''Hi there![|Human|]''],
         gen @ [3, 4, 5], Stop_word)"
    if "stub_decode gen = ''Hi there!''" for n i xs gen
    by (subst decode_steps_Suc_Inr [where logits = "stub_logits 3" and past' = "Some 4" and t = 3])
      (simp_all add: ev that r4 del: decode_steps.simps)
  have r2: "decode_steps D (Suc (Suc (Suc (Suc n)))) i xs (Some 2) gen
      = ([''Hi there!'', ''Hi there![|'', ''Hi there![|Human'', ''Hi there![|Human|]''],
         gen @ [2, 3, 4, 5], Stop_word)"
    if "stub_decode gen = ''Hi there''" for n i xs gen
    by (subst decode_steps_Suc_Inr [where logits = "stub_logits 2" and past' = "Some 3" and t = 2])
      (simp_all add: ev that r3 del: decode_steps.simps)
  have r1: "decode_steps D (Suc (Suc (Suc (Suc (Suc n))))) i xs (Some 1) gen
      = ([''Hi there'', ''Hi there!'', ''Hi there![|'', ''Hi there![|Human'',
          ''Hi there![|Human|]''], gen @ [1, 2, 3, 4, 5], Stop_word)"
    if "stub_decode gen = ''Hi''" for n i xs gen
    by (subst decode_steps_Suc_Inr [where logits = "stub_logits 1" and past' = "Some 2" and t = 1])
      (simp_all add: ev that r2 del: decode_steps.simps)
  have r0: "decode_steps D (Suc (Suc (Suc (Suc (Suc (Suc n)))))) i xs None []
      = ([''Hi'', ''Hi there'', ''Hi there!'', ''Hi there![|'', ''Hi there![|Human'',
          ''Hi there![|Human|]''], [0, 1, 2, 3, 4, 5], Stop_word)" for n i xs
    by (subst decode_steps_Suc_Inr [where logits = "stub_logits 0" and past' = "Some 1" and t = 0])
      (simp_all add: ev r1 [unfolded One_nat_def] stub_decode_def del: decode_steps.simps)
  have "nat 256 = Suc (Suc (Suc (Suc (Suc (Suc 250)))))" by simp
  then show ?thesis
    unfolding sample_decode_def D_def [symmetric] by (simp only: r0)
qed

lemma stub_prompt:
  "generate_prompt_with_history ''Hello'' [] char_tokenizer 2048
     = Some (prompt_preamble @ format_text ''Hello'',
             char_tokenizer (prompt_preamble @ format_text ''Hello''))"
  by (simp add: generate_prompt_with_history_def char_tokenizer_def length_prompt_preamble
      format_text_def)

lemma strip_examples:
  "strip_human_marker ''Hi there![|Human|]'' = ''Hi there![|Human|]''"
  "strip_human_marker (''Hi there!'' @ [NL] @ ''[|Human|]'') = ''Hi there!''"
  "strip_human_marker ''!'' = ''!''"
  "\<not> str_in ([NL] @ ''[|Human|]'') ''Hi there![|Human|]''"
  "\<not> str_in ([NL] @ ''[|Human|]'') (''Hi there'' @ butlast ([NL] @ ''[|Human|]''))"
  by (simp_all add: strip_human_marker_def)

text \<open>
  Claim C1 as stated fails in its own scenario: the utterance \<open>Hello\<close>, an empty history,
  \<open>max_length = 2048\<close>, \<open>max_context_length_tokens = 180\<close> and the stub model give
  \<open>Hi there![|Human|]\<close>, and the replacement of line 168 leaves it as it is.
\<close>

theorem stripped_answer_counterexample:
  "answer_generation stub_globals ''decapoda-research/llama-7b-hf''
       ''project-baize/baize-healthcare-lora-7B'' ''Hello'' 2048 1 1 30 180
     = Inr ''Hi there![|Human|]''
   \<and> strip_human_marker ''Hi there![|Human|]'' = ''Hi there![|Human|]''"
  by (simp add: answer_generation_def stub_globals_def stub_prompt
      stub_run [unfolded stub_globals_def] strip_examples)

theorem answer_is_last_yield_witness:
  "answer_generation stub_globals [] [] ''Hello'' 2048 1 1 30 180 = Inr ''Hi there![|Human|]''
   \<and> any_stop_word [''[|Human|]'', ''[|AI|]''] ''Hi there![|Human|]''
   \<and> \<not> str_in ([NL] @ ''[|Human|]'') ''Hi there![|Human|]''
   \<and> strip_human_marker ''Hi there![|Human|]'' = ''Hi there![|Human|]''
   \<and> \<not> str_in ([NL] @ ''[|Human|]'') (''Hi there'' @ butlast ([NL] @ ''[|Human|]''))
   \<and> strip_human_marker (''Hi there'' @ ([NL] @ ''[|Human|]'') @ ''!'') = ''Hi there!''"
proof -
  have p: "generate_prompt_with_history ''Hello'' [] (tokenizer stub_globals) 2048
     = Some (prompt_preamble @ format_text ''Hello'',
             char_tokenizer (prompt_preamble @ format_text ''Hello''))"
    by (simp add: stub_globals_def stub_prompt)
  note t = answer_is_last_yield [OF p stub_run, where base_model = "[]" and adapter_model = "[]"
      and temp = 1 and tp = 1 and tk = 30 and s = "''Hi there![|Human|]''"
      and a = "''Hi there''" and b = "''!''"]
  from t have 1: "answer_generation stub_globals [] [] ''Hello'' 2048 1 1 30 180
      = Inr ''Hi there![|Human|]''" by simp
  from t have 2: "any_stop_word [''[|Human|]'', ''[|AI|]''] ''Hi there![|Human|]''" by simp
  from t strip_examples(4) have 3: "strip_human_marker ''Hi there![|Human|]'' = ''Hi there![|Human|]''"
    by blast
  from t strip_examples(5)
  have "strip_human_marker (''Hi there'' @ ([NL] @ ''[|Human|]'') @ ''!'')
          = ''Hi there'' @ strip_human_marker ''!''" by blast
  then have 4: "strip_human_marker (''Hi there'' @ ([NL] @ ''[|Human|]'') @ ''!'') = ''Hi there!''"
    by (simp only: strip_examples(3)) simp
  from 1 2 3 4 strip_examples(4,5) show ?thesis by (intro conjI)
qed

lemma decode_steps_Suc_Inl:
  assumes "(if past = None then model d ids None else model d (last_column ids) past) = (logits, past')"
    and "sampler (tensors d) logits (temperature d) (top_p d) (top_k d) (draws d i) = Inl f"
  shows "decode_steps d (Suc n) i ids past gen = ([], gen, Raised f)"
  using assms by (simp add: Let_def)

lemma stub_run_short:
  "sample_decode ids (default_decoder stub_globals) 2 = ([''Hi'', ''Hi there''], [0, 1], Exhausted)"
proof -
  define D where "D = default_decoder stub_globals"
  note ev = stub_config [folded D_def] stub_model_simps [folded D_def] stub_sampler
    stub_sampler(2) [unfolded One_nat_def] stub_decode_snoc stub_pieces_def any_stop_word_def
  have r1: "decode_steps D (Suc 0) i xs (Some (Suc 0)) gen = ([''Hi there''], gen @ [1], Exhausted)"
    if "stub_decode gen = ''Hi''" for i xs gen
    by (subst decode_steps_Suc_Inr [where logits = "stub_logits 1" and past' = "Some 2" and t = 1])
      (simp_all add: ev that)
  have r0: "decode_steps D (Suc (Suc 0)) i xs None [] = ([''Hi'', ''Hi there''], [0, 1], Exhausted)"
    for i xs
    by (subst decode_steps_Suc_Inr [where logits = "stub_logits 0" and past' = "Some 1" and t = 0])
      (simp_all add: ev r1 stub_decode_def del: decode_steps.simps)
  have "nat 2 = Suc (Suc 0)" by simp
  then show ?thesis
    unfolding sample_decode_def D_def [symmetric] by (simp only: r0)
qed

lemma stub_run_raised:
  "sample_decode ids ((default_decoder stub_globals)\<lparr>top_k := Some 26\<rparr>) 256
     = ([], [], Raised Topk_out_of_range)"
proof -
  have s: "sampler exact_arith (stub_logits 0) 1 1 (Some 26) 0 = Inl Topk_out_of_range"
    by (simp add: stub_logits_def upt_25 sampler_defs exact_defs)
  have n: "nat 256 = Suc 255" by simp
  have "decode_steps ((default_decoder stub_globals)\<lparr>top_k := Some 26\<rparr>) (Suc 255) 0 ids None []
          = ([], [], Raised Topk_out_of_range)"
    by (rule decode_steps_Suc_Inl [where logits = "stub_logits 0" and past' = "Some 1"])
      (simp_all add: default_decoder_def stub_globals_def stub_model_def s)
  then show ?thesis
    unfolding sample_decode_def n .
qed

text \<open>
  Three runs of the stub: one ends at the stop word after six tokens, one uses up its two
  steps, and one ends at once with the exception of \<open>torch.topk\<close>.
\<close>

theorem sample_decode_yields_witness:
  "sample_decode [] (default_decoder stub_globals) 256
     = ([''Hi'', ''Hi there'', ''Hi there!'', ''Hi there![|'', ''Hi there![|Human'',
         ''Hi there![|Human|]''], [0, 1, 2, 3, 4, 5], Stop_word)
   \<and> any_stop_word (stop_words (default_decoder stub_globals)) ''Hi there![|Human|]''
   \<and> \<not> any_stop_word (stop_words (default_decoder stub_globals)) ''Hi there![|Human''
   \<and> ''Hi there![|Human'' = decode (default_decoder stub_globals) (take 5 [0, 1, 2, 3, 4, 5])
   \<and> sample_decode [] (default_decoder stub_globals) 2 = ([''Hi'', ''Hi there''], [0, 1], Exhausted)
   \<and> sample_decode [] ((default_decoder stub_globals)\<lparr>top_k := Some 26\<rparr>) 256
       = ([], [], Raised Topk_out_of_range)"
proof -
  note a = sample_decode_yields [OF stub_run [of "[]"]]
  note b = sample_decode_yields [OF stub_run_short [of "[]"]]
  note c = sample_decode_yields [OF stub_run_raised [of "[]"]]
  from a have 1: "any_stop_word (stop_words (default_decoder stub_globals)) ''Hi there![|Human|]''"
    by (auto dest: spec [of _ 5])
  from a have 2: "\<not> any_stop_word (stop_words (default_decoder stub_globals)) ''Hi there![|Human''"
    by (auto dest: spec [of _ 4])
  from a have 3: "''Hi there![|Human'' = decode (default_decoder stub_globals) (take 5 [0, 1, 2, 3, 4, 5])"
    by (auto dest: spec [of _ 4])
  from b c have "length [''Hi'', ''Hi there''] = nat 2" "length ([] :: string list) < nat 256"
    by simp_all
  with 1 2 3 stub_run [of "[]"] stub_run_short [of "[]"] stub_run_raised [of "[]"]
  show ?thesis by simp
qed

lemma stub_zero_row:
  "post_filter exact_arith (stub_logits 0) 1 (- 1) (Some 25) = Inr (replicate 25 (Num 0))"
  by (simp add: post_filter_def sorted_probs_def stub_logits_def upt_25 sampler_defs exact_defs
      eval_nat_numeral)

text \<open>
  A run of the stub with \<open>top_p = -1\<close>: the top-p filter zeroes every entry, and the first
  step ends the run with the exception of \<open>torch.multinomial\<close>.
\<close>

theorem zero_distribution_raises_witness:
  "post_filter exact_arith (stub_logits 0) 1 (- 1) (Some 25) = Inr (replicate 25 (Num 0))
   \<and> sampler exact_arith (stub_logits 0) 1 (- 1) (Some 25) 0 = Inl Invalid_weights
   \<and> sample_decode [] ((default_decoder stub_globals)\<lparr>top_p := - 1\<rparr>) 256
       = ([], [], Raised Invalid_weights)"
proof -
  let ?d = "(default_decoder stub_globals)\<lparr>top_p := - 1\<rparr>"
  have c: "tensors ?d = exact_arith" "temperature ?d = 1" "top_p ?d = - 1" "top_k ?d = Some 25"
    "draws ?d 0 = 0"
    by (simp_all add: default_decoder_def stub_globals_def)
  have m: "(if (None :: nat option) = None then model ?d [] None else model ?d (last_column []) None)
             = (stub_logits 0, Some 1)"
    by (simp add: default_decoder_def stub_globals_def stub_model_def)
  have z: "post_filter (tensors ?d) (stub_logits 0) (temperature ?d) (top_p ?d) (top_k ?d)
             = Inr (replicate 25 (Num 0))"
    by (simp only: c stub_zero_row)
  have a: "\<forall>q\<in>set (replicate 25 (Num 0)). q = fzero (tensors ?d)"
    by (simp add: c exact_arith_def)
  have r: "replicate 25 (Num 0) \<noteq> [] \<longrightarrow>
      refused (tensors ?d) (fdiv (tensors ?d) (fzero (tensors ?d)) (fsum (tensors ?d) (replicate 25 (Num 0))))"
    by (simp add: c exact_defs eval_nat_numeral)
  note t = zero_distribution_raises [OF m z a r, of 0 255 "[]"]
  have n: "nat 256 = Suc 255" by simp
  from t have "sampler exact_arith (stub_logits 0) 1 (- 1) (Some 25) 0 = Inl Invalid_weights"
    by (simp only: c)
  moreover from t have "sample_decode [] ?d 256 = ([], [], Raised Invalid_weights)"
    unfolding sample_decode_def n by blast
  ultimately show ?thesis using stub_zero_row by (intro conjI)
qed

end
